theory Spec2Isabelle
  imports Complex_Main "HOL-Library.Sublist"
begin

section \<open>Comparison tables and report of \<open>comparison_utils.py\<close>\<close>

text \<open>
  The module has three functions: \<open>calculate_improvement\<close>, \<open>create_comparison_table\<close> and
  \<open>create_styled_excel\<close>. Metric values are Python floats; they are modelled as
  \<^typ>\<open>real option\<close>, \<open>None\<close> standing for NaN (what \<open>pd.isna\<close> tests), so the arithmetic
  is exact and rounding of binary floating point, infinities and the sign of zero are
  not represented. Strings are \<^typ>\<open>string\<close>, one \<^typ>\<open>char\<close> for each character of the Python
  string (characters beyond the 256 values of \<^typ>\<open>char\<close> are not represented). An
  exception is a value \<open>Inl e\<close>.
\<close>

subsection \<open>Errors\<close>

datatype error =
    KeyError string
  | NotNumeric string
  | UnmodelledPattern string

text \<open>
  \<open>KeyError c\<close>: the frame has no column \<open>c\<close>. \<open>NotNumeric c\<close>: the column \<open>c\<close> holds text, on
  which the subtraction or the number format raises (\<open>TypeError\<close> or \<open>ValueError\<close>).
  \<open>UnmodelledPattern l\<close>: the label \<open>l\<close> is
  handed to \<open>Series.str.contains\<close> as a regular expression that uses a metacharacter
  other than the dot, which this development does not interpret (some of these patterns
  make Python raise \<open>re.error\<close>, the others match by rules not modelled here).
\<close>

subsection \<open>\<open>calculate_improvement\<close>\<close>

definition calculate_improvement :: "real option \<Rightarrow> real option \<Rightarrow> string \<Rightarrow> real option" where
  "calculate_improvement baseline_val comparison_val metric =
     (if baseline_val = None \<or> comparison_val = None then None
      else if the baseline_val = 0 then None
      else if metric = ''R2''
        then Some (((the comparison_val - the baseline_val) / \<bar>the baseline_val\<bar>) * 100)
        else Some (((the baseline_val - the comparison_val) / the baseline_val) * 100))"

subsection \<open>The input frame\<close>

text \<open>
  One row of \<open>results_df\<close>: the column \<open>Model\<close> and the six metric columns of the input
  contract.
\<close>

record metric_record =
  Model :: string
  RMSE :: "real option"
  MAE :: "real option"
  MAPE :: "real option"
  R2 :: "real option"
  AIC :: "real option"
  BIC :: "real option"

text \<open>
  \<open>df[metric]\<close>, read as numbers by the loop: one of the six metric columns. The two text
  columns \<open>Model\<close> and \<open>ModelName\<close> cannot be computed with; any other name raises
  \<open>KeyError\<close>.
\<close>

definition column :: "string \<Rightarrow> error + (metric_record \<Rightarrow> real option)" where
  "column metric =
     (if metric = ''RMSE'' then Inr RMSE
      else if metric = ''MAE'' then Inr MAE
      else if metric = ''MAPE'' then Inr MAPE
      else if metric = ''R2'' then Inr R2
      else if metric = ''AIC'' then Inr AIC
      else if metric = ''BIC'' then Inr BIC
      else if metric = ''Model'' \<or> metric = ''ModelName'' then Inl (NotNumeric metric)
      else Inl (KeyError metric))"

subsection \<open>String operations of pandas\<close>

text \<open>
  \<open>s.replace('-' + label, '', regex=False)\<close>: every occurrence of the literal text, found
  from the left and not overlapping, is removed.
\<close>

fun strip_label :: "string \<Rightarrow> string \<Rightarrow> string" where
  "strip_label l [] = []"
| "strip_label l (c # cs) =
     (if prefix (CHR ''-'' # l) (c # cs) then strip_label l (drop (length l) cs)
      else c # strip_label l cs)"

text \<open>
  \<open>s.str.contains(label)\<close> is called without \<open>regex=False\<close>, so pandas compiles the label
  as a regular expression and searches for it (\<open>re.search\<close>). The fragment interpreted
  here: a dot matches any character but the newline, a character that is not a
  metacharacter matches itself.
\<close>

datatype atom = Lit char | AnyChar

definition regex_special :: "char \<Rightarrow> bool" where
  "regex_special c \<longleftrightarrow>
     c \<in> set [CHR ''.'', CHR ''^'', CHR ''$'', CHR ''*'', CHR ''+'', CHR ''?'', CHR ''{'',
              CHR ''}'', CHR ''['', CHR '']'', CHR 0x5C, CHR ''|'', CHR ''('', CHR '')'']"

fun parse_pattern :: "string \<Rightarrow> atom list option" where
  "parse_pattern [] = Some []"
| "parse_pattern (c # cs) =
     (if c = CHR ''.'' then map_option ((#) AnyChar) (parse_pattern cs)
      else if regex_special c then None
      else map_option ((#) (Lit c)) (parse_pattern cs))"

fun atom_matches :: "atom \<Rightarrow> char \<Rightarrow> bool" where
  "atom_matches (Lit c) d \<longleftrightarrow> c = d"
| "atom_matches AnyChar d \<longleftrightarrow> d \<noteq> CHR 0x0A"

fun match_here :: "atom list \<Rightarrow> string \<Rightarrow> bool" where
  "match_here [] s \<longleftrightarrow> True"
| "match_here (a # as) [] \<longleftrightarrow> False"
| "match_here (a # as) (c # cs) \<longleftrightarrow> atom_matches a c \<and> match_here as cs"

fun search :: "atom list \<Rightarrow> string \<Rightarrow> bool" where
  "search p [] \<longleftrightarrow> match_here p []"
| "search p (c # cs) \<longleftrightarrow> match_here p (c # cs) \<or> search p cs"

definition str_contains :: "string \<Rightarrow> string \<Rightarrow> error + bool" where
  "str_contains label s =
     (case parse_pattern label of
        None \<Rightarrow> Inl (UnmodelledPattern label)
      | Some p \<Rightarrow> Inr (search p s))"

text \<open>\<open>Series.unique()\<close>: the distinct values in order of first appearance.\<close>

fun unique :: "'a list \<Rightarrow> 'a list" where
  "unique [] = []"
| "unique (x # xs) = x # unique (filter (\<lambda>y. y \<noteq> x) xs)"

subsection \<open>Number formatting\<close>

text \<open>
  \<open>f"{x:.3f}"\<close>, \<open>f"{x:+.1f}"\<close> and \<open>f"{x:+.2f}"\<close>: the value rounded to the given number of
  decimals, a tie going to the even digit; the sign is printed for a negative value, and
  for every value under \<open>+\<close>.
\<close>

definition round_half_even :: "real \<Rightarrow> int" where
  "round_half_even x =
     (let n = \<lfloor>x\<rfloor>; d = x - of_int n
      in if d < 1 / 2 then n else if 1 / 2 < d then n + 1 else if even n then n else n + 1)"

definition digit_char :: "int \<Rightarrow> char" where
  "digit_char d = ''0123456789'' ! nat d"

function digits :: "int \<Rightarrow> string" where
  "digits n = (if n < 10 then [digit_char n] else digits (n div 10) @ [digit_char (n mod 10)])"
  by pat_completeness auto
termination
  by (relation "measure nat") auto

fun fixed_digits :: "nat \<Rightarrow> int \<Rightarrow> string" where
  "fixed_digits 0 q = []"
| "fixed_digits (Suc k) q = fixed_digits k (q div 10) @ [digit_char (q mod 10)]"

definition format_f :: "bool \<Rightarrow> nat \<Rightarrow> real \<Rightarrow> string" where
  "format_f always_sign n x =
     (let q = round_half_even (\<bar>x\<bar> * 10 ^ n)
      in (if x < 0 then ''-'' else if always_sign then ''+'' else [])
         @ digits (q div 10 ^ n) @ ''.'' @ fixed_digits n (q mod 10 ^ n))"

text \<open>The averages are formatted even when they are NaN: \<open>f"{nan:+.2f}"\<close> is \<open>+nan\<close>.\<close>

definition format_avg :: "real option \<Rightarrow> string" where
  "format_avg avg = (case avg of None \<Rightarrow> ''+nan'' | Some v \<Rightarrow> format_f True 2 v)"

subsection \<open>\<open>create_comparison_table\<close>\<close>

record comparison_row =
  cmp_Model :: string
  Baseline :: string
  Exogenous :: string
  EEMD :: string
  exog_imp :: "real option"
  eemd_imp :: "real option"

text \<open>The column \<open>ModelName\<close>: the three labels removed in turn.\<close>

definition ModelName :: "string \<Rightarrow> string \<Rightarrow> string \<Rightarrow> metric_record \<Rightarrow> string" where
  "ModelName baseline_label exog_label eemd_label r =
     strip_label eemd_label (strip_label exog_label (strip_label baseline_label (Model r)))"

text \<open>\<open>results_df[results_df['Model'].str.contains(label)]\<close>.\<close>

definition scenario_rows :: "string \<Rightarrow> metric_record list \<Rightarrow> error + metric_record list" where
  "scenario_rows label results_df =
     (case parse_pattern label of
        None \<Rightarrow> Inl (UnmodelledPattern label)
      | Some p \<Rightarrow> Inr (filter (\<lambda>r. search p (Model r)) results_df))"

text \<open>
  \<open>df[df['ModelName'] == model][metric].values\<close>, then its first element, or NaN when
  there is none.
\<close>

definition scenario_value ::
  "(metric_record \<Rightarrow> string) \<Rightarrow> (metric_record \<Rightarrow> real option) \<Rightarrow> metric_record list \<Rightarrow> string \<Rightarrow> real option" where
  "scenario_value name_of col df model =
     (case map col (filter (\<lambda>r. name_of r = model) df) of
        [] \<Rightarrow> None
      | v # _ \<Rightarrow> v)"

definition format_scenario :: "real option \<Rightarrow> real option \<Rightarrow> string" where
  "format_scenario val imp =
     (if val \<noteq> None
      then (if imp \<noteq> None
            then format_f False 3 (the val) @ '' ('' @ format_f True 1 (the imp) @ ''%)''
            else format_f False 3 (the val))
      else ''N/A'')"

definition build_row ::
  "(metric_record \<Rightarrow> string) \<Rightarrow> (metric_record \<Rightarrow> real option) \<Rightarrow> string \<Rightarrow>
   metric_record list \<Rightarrow> metric_record list \<Rightarrow> metric_record list \<Rightarrow> string \<Rightarrow> comparison_row" where
  "build_row name_of col metric baseline_df exog_df eemd_df model =
     (let baseline_val = scenario_value name_of col baseline_df model;
          exog_val = scenario_value name_of col exog_df model;
          eemd_val = scenario_value name_of col eemd_df model;
          exog_i = calculate_improvement baseline_val exog_val metric;
          eemd_i = calculate_improvement baseline_val eemd_val metric
      in \<lparr> cmp_Model = model,
           Baseline = (if baseline_val \<noteq> None then format_f False 3 (the baseline_val) else ''N/A''),
           Exogenous = format_scenario exog_val exog_i,
           EEMD = format_scenario eemd_val eemd_i,
           exog_imp = exog_i,
           eemd_imp = eemd_i \<rparr>)"

text \<open>
  The three partitions are computed before the loop, so a label that cannot be searched
  for fails first; the metric column is read inside the loop, so a missing column fails
  only when there is a model to loop over.
\<close>

definition create_comparison_table ::
  "metric_record list \<Rightarrow> string \<Rightarrow> string \<Rightarrow> string \<Rightarrow> string \<Rightarrow> error + comparison_row list" where
  "create_comparison_table results_df metric baseline_label exog_label eemd_label =
     (case scenario_rows baseline_label results_df of
        Inl e \<Rightarrow> Inl e
      | Inr baseline_df \<Rightarrow>
     (case scenario_rows exog_label results_df of
        Inl e \<Rightarrow> Inl e
      | Inr exog_df \<Rightarrow>
     (case scenario_rows eemd_label results_df of
        Inl e \<Rightarrow> Inl e
      | Inr eemd_df \<Rightarrow>
         (let name_of = ModelName baseline_label exog_label eemd_label;
              model_names = unique (map name_of baseline_df)
          in if model_names = [] then Inr []
             else (case column metric of
                     Inl e \<Rightarrow> Inl e
                   | Inr col \<Rightarrow>
                       Inr (map (build_row name_of col metric baseline_df exog_df eemd_df)
                              model_names))))))"

subsection \<open>\<open>create_styled_excel\<close>\<close>

text \<open>
  The workbook is modelled by what the claims read from it: per metric sheet the title,
  the header row, the data rows with the style given to the two scenario cells, and the
  summary row; and the summary sheet. Borders, alignments, fonts of the headers and
  column widths are constants of the source and are left out.
\<close>

definition metrics :: "string list" where
  "metrics = [''RMSE'', ''MAE'', ''MAPE'', ''R2'', ''AIC'', ''BIC'']"

text \<open>
  \<open>comparison_df['exog_imp']\<close>: the table is \<open>pd.DataFrame(comparison_data)\<close>, which has no
  column at all when \<open>comparison_data\<close> is the empty list.
\<close>

definition frame_column :: "string \<Rightarrow> (comparison_row \<Rightarrow> 'a) \<Rightarrow> comparison_row list \<Rightarrow> error + 'a list" where
  "frame_column name f comparison_df =
     (if comparison_df = [] then Inl (KeyError name) else Inr (map f comparison_df))"

text \<open>\<open>Series.mean()\<close>: NaN entries are skipped; the mean of no entry is NaN.\<close>

definition mean_skipna :: "real option list \<Rightarrow> real option" where
  "mean_skipna col =
     (let present = [v. Some v \<leftarrow> col]
      in if present = [] then None else Some (sum_list present / real (length present)))"

datatype cell_style = NoFill | ImprovementGood | ImprovementBad

definition improvement_style :: "real option \<Rightarrow> cell_style" where
  "improvement_style imp =
     (if imp \<noteq> None
      then (if the imp > 0 then ImprovementGood
            else if the imp < 0 then ImprovementBad
            else NoFill)
      else NoFill)"

record data_row =
  row_idx :: nat
  model_cell :: string
  baseline_cell :: string
  exog_cell :: string
  exog_cell_style :: cell_style
  eemd_cell :: string
  eemd_cell_style :: cell_style

definition write_data_row :: "nat \<times> comparison_row \<Rightarrow> data_row" where
  "write_data_row ir =
     (case ir of (i, row_data) \<Rightarrow>
        \<lparr> row_idx = i,
          model_cell = cmp_Model row_data,
          baseline_cell = Baseline row_data,
          exog_cell = Exogenous row_data,
          exog_cell_style = improvement_style (exog_imp row_data),
          eemd_cell = EEMD row_data,
          eemd_cell_style = improvement_style (eemd_imp row_data) \<rparr>)"

record metric_sheet =
  sheet_title :: string
  cell_A1 :: string
  header_cells :: "string list"
  data_rows :: "data_row list"
  summary_row :: nat
  summary_cells :: "string list"

text \<open>The header texts hold the letter Delta, written here as its two UTF-8 bytes.\<close>

definition headers :: "string list" where
  "headers = [''Model'', ''Baseline'',
              ''Exogenous ('' @ [CHR 0xCE, CHR 0x94] @ ''%)'',
              ''EEMD ('' @ [CHR 0xCE, CHR 0x94] @ ''%)'']"

text \<open>One pass of the first loop over \<open>metrics\<close>.\<close>

definition create_metric_sheet ::
  "metric_record list \<Rightarrow> string \<Rightarrow> string \<Rightarrow> string \<Rightarrow> string \<Rightarrow> error + metric_sheet" where
  "create_metric_sheet results_df baseline_label exog_label eemd_label metric =
     (case create_comparison_table results_df metric baseline_label exog_label eemd_label of
        Inl e \<Rightarrow> Inl e
      | Inr comparison_df \<Rightarrow>
     (case frame_column ''exog_imp'' exog_imp comparison_df of
        Inl e \<Rightarrow> Inl e
      | Inr exog_col \<Rightarrow>
     (case frame_column ''eemd_imp'' eemd_imp comparison_df of
        Inl e \<Rightarrow> Inl e
      | Inr eemd_col \<Rightarrow>
          Inr \<lparr> sheet_title = metric,
                cell_A1 = metric @ '' Comparison: Baseline vs Exogenous vs EEMD'',
                header_cells = headers,
                data_rows = map write_data_row (enumerate 4 comparison_df),
                summary_row = length comparison_df + 5,
                summary_cells = [''Average Improvement:'', ''Baseline'',
                                 format_avg (mean_skipna exog_col) @ ''%'',
                                 format_avg (mean_skipna eemd_col) @ ''%''] \<rparr>)))"

text \<open>One pass of the second loop: a row of the summary sheet.\<close>

definition summary_entry ::
  "metric_record list \<Rightarrow> string \<Rightarrow> string \<Rightarrow> string \<Rightarrow> string \<Rightarrow> error + string list" where
  "summary_entry results_df baseline_label exog_label eemd_label metric =
     (case create_comparison_table results_df metric baseline_label exog_label eemd_label of
        Inl e \<Rightarrow> Inl e
      | Inr comparison_df \<Rightarrow>
     (case frame_column ''exog_imp'' exog_imp comparison_df of
        Inl e \<Rightarrow> Inl e
      | Inr exog_col \<Rightarrow>
     (case frame_column ''eemd_imp'' eemd_imp comparison_df of
        Inl e \<Rightarrow> Inl e
      | Inr eemd_col \<Rightarrow>
          Inr [metric, format_avg (mean_skipna exog_col), format_avg (mean_skipna eemd_col)])))"

text \<open>A loop whose body may raise: the first error ends it.\<close>

fun map_err :: "('a \<Rightarrow> error + 'b) \<Rightarrow> 'a list \<Rightarrow> error + 'b list" where
  "map_err f [] = Inr []"
| "map_err f (x # xs) =
     (case f x of
        Inl e \<Rightarrow> Inl e
      | Inr y \<Rightarrow> (case map_err f xs of Inl e \<Rightarrow> Inl e | Inr ys \<Rightarrow> Inr (y # ys)))"

record workbook =
  sheet_names :: "string list"
  summary_rows :: "string list list"
  metric_sheets :: "metric_sheet list"

definition build_workbook ::
  "metric_record list \<Rightarrow> string \<Rightarrow> string \<Rightarrow> string \<Rightarrow> error + workbook" where
  "build_workbook results_df baseline_label exog_label eemd_label =
     (case map_err (create_metric_sheet results_df baseline_label exog_label eemd_label) metrics of
        Inl e \<Rightarrow> Inl e
      | Inr sheets \<Rightarrow>
     (case map_err (summary_entry results_df baseline_label exog_label eemd_label) metrics of
        Inl e \<Rightarrow> Inl e
      | Inr summary_data \<Rightarrow>
          Inr \<lparr> sheet_names = ''Summary'' # map sheet_title sheets,
                summary_rows = [''Metric'', ''Avg Exog Improvement (%)'',
                                ''Avg EEMD Improvement (%)''] # summary_data,
                metric_sheets = sheets \<rparr>))"

text \<open>
  The files are a map from paths to saved workbooks; \<open>wb.save(output_path)\<close> is the last
  statement but the printed confirmation, so an error leaves the files as they were.
\<close>

definition create_styled_excel ::
  "metric_record list \<Rightarrow> string \<Rightarrow> string \<Rightarrow> string \<Rightarrow> string \<Rightarrow> (string \<rightharpoonup> workbook) \<Rightarrow>
   (error + unit) \<times> (string \<rightharpoonup> workbook)" where
  "create_styled_excel results_df output_path baseline_label exog_label eemd_label files =
     (case build_workbook results_df baseline_label exog_label eemd_label of
        Inl e \<Rightarrow> (Inl e, files)
      | Inr wb \<Rightarrow> (Inr (), files(output_path \<mapsto> wb)))"

subsection \<open>Labels and digits\<close>

text \<open>
  A label without any metacharacter, for which the search of \<open>str.contains\<close> is the search
  for the literal text; and a label inside the fragment that is interpreted.
\<close>

definition plain_label :: "string \<Rightarrow> bool" where
  "plain_label l \<longleftrightarrow> (\<forall>c\<in>set l. \<not> regex_special c)"


definition decimal_digit :: "char \<Rightarrow> bool" where
  "decimal_digit c \<longleftrightarrow> c \<in> set ''0123456789''"

subsection \<open>Example inputs\<close>

text \<open>The records of the first scenario of the specification.\<close>

definition scenario_1_records :: "metric_record list" where
  "scenario_1_records =
     [\<lparr>Model = ''ARIMA-Base'', RMSE = Some 10, MAE = None, MAPE = None,
        R2 = None, AIC = None, BIC = None\<rparr>,
      \<lparr>Model = ''ARIMA-Exog'', RMSE = Some 8, MAE = None, MAPE = None,
        R2 = None, AIC = None, BIC = None\<rparr>]"

text \<open>
  A frame with a model that has no baseline row, a zero baseline (\<open>MAE\<close>), an unchanged
  value (\<open>RMSE\<close> under EEMD) and missing values.
\<close>

definition lstm_exog :: metric_record where
  "lstm_exog = \<lparr>Model = ''LSTM-Exog'', RMSE = Some 5, MAE = None, MAPE = None,
                 R2 = None, AIC = None, BIC = None\<rparr>"

definition arima_base :: metric_record where
  "arima_base = \<lparr>Model = ''ARIMA-Base'', RMSE = Some 10, MAE = Some 0, MAPE = None,
                  R2 = Some 0.5, AIC = Some (-10), BIC = None\<rparr>"

definition arima_exog :: metric_record where
  "arima_exog = \<lparr>Model = ''ARIMA-Exog'', RMSE = Some 8, MAE = Some 3, MAPE = None,
                  R2 = Some 0.6, AIC = Some (-20), BIC = None\<rparr>"

definition arima_eemd :: metric_record where
  "arima_eemd = \<lparr>Model = ''ARIMA-EEMD'', RMSE = Some 10, MAE = Some 2, MAPE = None,
                  R2 = None, AIC = None, BIC = None\<rparr>"

definition svr_base :: metric_record where
  "svr_base = \<lparr>Model = ''SVR-Base'', RMSE = Some 4, MAE = None, MAPE = None,
                R2 = None, AIC = None, BIC = None\<rparr>"

definition example_records :: "metric_record list" where
  "example_records = [lstm_exog, arima_base, arima_exog, arima_eemd, svr_base]"

text \<open>A record whose \<open>Model\<close> does not hold the label \<open>Base.v1\<close>, with labels that hold a dot.\<close>

definition arima_base_v1 :: metric_record where
  "arima_base_v1 = \<lparr>Model = ''ARIMA-Base-v1'', RMSE = Some 10, MAE = None, MAPE = None,
                     R2 = None, AIC = None, BIC = None\<rparr>"


text \<open>What the code computes from \<open>example_records\<close> with the labels \<open>Base\<close>, \<open>Exog\<close>, \<open>EEMD\<close>.\<close>

definition example_table_RMSE :: "comparison_row list" where
  "example_table_RMSE =
     [\<lparr>cmp_Model = ''ARIMA'', Baseline = ''10.000'', Exogenous = ''8.000 (+20.0%)'',
        EEMD = ''10.000 (+0.0%)'', exog_imp = Some 20, eemd_imp = Some 0\<rparr>,
      \<lparr>cmp_Model = ''SVR'', Baseline = ''4.000'', Exogenous = ''N/A'',
        EEMD = ''N/A'', exog_imp = None, eemd_imp = None\<rparr>]"



definition example_sheet_RMSE :: metric_sheet where
  "example_sheet_RMSE =
     \<lparr>sheet_title = ''RMSE'',
       cell_A1 = ''RMSE Comparison: Baseline vs Exogenous vs EEMD'',
       header_cells = headers,
       data_rows =
         [\<lparr>row_idx = 4, model_cell = ''ARIMA'', baseline_cell = ''10.000'',
            exog_cell = ''8.000 (+20.0%)'', exog_cell_style = ImprovementGood,
            eemd_cell = ''10.000 (+0.0%)'', eemd_cell_style = NoFill\<rparr>,
          \<lparr>row_idx = 5, model_cell = ''SVR'', baseline_cell = ''4.000'',
            exog_cell = ''N/A'', exog_cell_style = NoFill,
            eemd_cell = ''N/A'', eemd_cell_style = NoFill\<rparr>],
       summary_row = 7,
       summary_cells = [''Average Improvement:'', ''Baseline'', ''+20.00%'', ''+0.00%'']\<rparr>"

definition example_workbook :: workbook where
  "example_workbook = projr (build_workbook example_records ''Base'' ''Exog'' ''EEMD'')"

section \<open>Properties of \<open>calculate_improvement\<close>\<close>

lemma calculate_improvement_Some:
  "b \<noteq> 0 \<Longrightarrow> calculate_improvement (Some b) (Some c) metric =
     Some (if metric = ''R2'' then ((c - b) / \<bar>b\<bar>) * 100 else ((b - c) / b) * 100)"
  by (simp add: calculate_improvement_def)

lemma calculate_improvement_None_iff:
  "calculate_improvement bv cv metric = None \<longleftrightarrow> bv = None \<or> cv = None \<or> bv = Some 0"
  by (cases bv; cases cv) (simp_all add: calculate_improvement_def)

text \<open>
  The sign of the result. For \<open>R2\<close> the quotient is taken by \<open>abs(baseline_val)\<close>, so the
  result is positive exactly when the comparison is higher. For the other metrics the
  quotient is taken by \<open>baseline_val\<close> itself: the result is positive exactly when the
  comparison is lower for a positive baseline, and exactly when it is higher for a
  negative one.
\<close>

lemma pos_times_100: "0 < x * 100 \<longleftrightarrow> 0 < (x::real)"
  by arith

lemma calculate_improvement_R2_sign:
  assumes "b \<noteq> 0" and "calculate_improvement (Some b) (Some c) ''R2'' = Some p"
  shows "0 < p \<longleftrightarrow> b < c"
proof -
  have p: "p = ((c - b) / \<bar>b\<bar>) * 100"
    using assms by (simp add: calculate_improvement_Some)
  have "0 < p \<longleftrightarrow> 0 < (c - b) / \<bar>b\<bar>"
    unfolding p by (rule pos_times_100)
  also have "\<dots> \<longleftrightarrow> 0 < c - b"
    using assms(1) by (simp add: zero_less_divide_iff)
  also have "\<dots> \<longleftrightarrow> b < c"
    by auto
  finally show ?thesis .
qed

lemma calculate_improvement_lower_sign_pos:
  assumes "0 < b" and "metric \<noteq> ''R2''"
    and "calculate_improvement (Some b) (Some c) metric = Some p"
  shows "0 < p \<longleftrightarrow> c < b"
proof -
  have p: "p = ((b - c) / b) * 100"
    using assms by (simp add: calculate_improvement_Some)
  have "0 < p \<longleftrightarrow> 0 < (b - c) / b"
    unfolding p by (rule pos_times_100)
  also have "\<dots> \<longleftrightarrow> 0 < b - c"
    using assms(1) by (simp add: zero_less_divide_iff)
  also have "\<dots> \<longleftrightarrow> c < b"
    by auto
  finally show ?thesis .
qed

lemma calculate_improvement_lower_sign_neg:
  assumes "b < 0" and "metric \<noteq> ''R2''"
    and "calculate_improvement (Some b) (Some c) metric = Some p"
  shows "0 < p \<longleftrightarrow> b < c"
proof -
  have p: "p = ((b - c) / b) * 100"
    using assms by (simp add: calculate_improvement_Some)
  have "0 < p \<longleftrightarrow> 0 < (b - c) / b"
    unfolding p by (rule pos_times_100)
  also have "\<dots> \<longleftrightarrow> b - c < 0"
    using assms(1) by (simp add: zero_less_divide_iff)
  also have "\<dots> \<longleftrightarrow> b < c"
    by auto
  finally show ?thesis .
qed

text \<open>
  Claim C1: for every metric other than \<open>R2\<close> the improvement is positive if and only if
  the comparison value is below the baseline. With a negative baseline the code gives
  the opposite sign: from \<open>AIC = -10\<close> to \<open>AIC = -20\<close> the comparison is lower, which
  the docstring calls better, and the result is \<open>-100\<close>.
\<close>

theorem calculate_improvement_negative_baseline:
  "calculate_improvement (Some (-10)) (Some (-20)) ''AIC'' = Some (-100)
   \<and> (-20 :: real) < -10
   \<and> calculate_improvement (Some (-10)) (Some (-20)) ''R2'' = Some (-100)"
  by (simp add: calculate_improvement_def)

text \<open>
  Claim C2: for every metric the result is undefined (NaN) whenever the baseline value is
  missing, the comparison value is missing, or the baseline value is 0; the zero
  baseline is answered by the guard, no division takes place.
\<close>

theorem calculate_improvement_undefined:
  "baseline_val = None \<or> comparison_val = None \<or> baseline_val = Some 0 \<Longrightarrow>
   calculate_improvement baseline_val comparison_val metric = None"
  by (auto simp add: calculate_improvement_def)

theorem calculate_improvement_undefined_witness:
  "calculate_improvement (Some 0) (Some 5) ''RMSE'' = None
   \<and> calculate_improvement None (Some 5) ''R2'' = None
   \<and> calculate_improvement (Some 3) None ''AIC'' = None"
  using calculate_improvement_undefined [of "Some 0" "Some 5" "''RMSE''"]
    calculate_improvement_undefined [of None "Some 5" "''R2''"]
    calculate_improvement_undefined [of "Some 3" None "''AIC''"]
  by simp



section \<open>Lists of distinct names and label search\<close>

lemma set_unique: "set (unique xs) = set xs"
  by (induction xs rule: unique.induct) auto

lemma distinct_unique: "distinct (unique xs)"
  by (induction xs rule: unique.induct) (auto simp: set_unique)

lemma unique_eq_Nil: "unique xs = [] \<longleftrightarrow> xs = []"
  by (cases xs) simp_all

lemma unique_snoc: "unique (xs @ [a]) = (if a \<in> set xs then unique xs else unique xs @ [a])"
  by (induction xs rule: unique.induct) auto

lemma unique_first_appearance:
  "i < length (unique xs) \<Longrightarrow>
   \<exists>k<length xs. xs ! k = unique xs ! i \<and> set (take k xs) = set (take i (unique xs))"
proof (induction xs arbitrary: i rule: rev_induct)
  case Nil
  then show ?case by simp
next
  case (snoc a xs)
  show ?case
  proof (cases "i < length (unique xs)")
    case True
    from snoc.IH [OF True] obtain k where k: "k < length xs" "xs ! k = unique xs ! i"
      "set (take k xs) = set (take i (unique xs))" by blast
    have "unique (xs @ [a]) ! i = unique xs ! i"
      using True by (simp add: unique_snoc nth_append)
    moreover have "take i (unique (xs @ [a])) = take i (unique xs)"
      using True by (simp add: unique_snoc)
    ultimately show ?thesis
      using k by (intro exI [of _ k]) (simp add: nth_append)
  next
    case False
    with snoc.prems have new: "a \<notin> set xs" and i: "i = length (unique xs)"
      by (auto simp: unique_snoc split: if_splits)
    have "unique (xs @ [a]) ! i = a" "take i (unique (xs @ [a])) = unique xs"
      using new i by (simp_all add: unique_snoc)
    then show ?thesis
      by (intro exI [of _ "length xs"]) (simp add: set_unique)
  qed
qed

lemma parse_pattern_plain: "plain_label l \<Longrightarrow> parse_pattern l = Some (map Lit l)"
  by (induction l) (auto simp: plain_label_def regex_special_def)

lemma match_here_Lit: "match_here (map Lit l) s \<longleftrightarrow> prefix l s"
  by (induction "map Lit l" s arbitrary: l rule: match_here.induct) auto

lemma search_Lit: "search (map Lit l) s \<longleftrightarrow> sublist l s"
  by (induction s) (auto simp: match_here_Lit sublist_Cons_right)

lemma scenario_rows_plain:
  "plain_label l \<Longrightarrow> scenario_rows l rs = Inr (filter (\<lambda>r. sublist l (Model r)) rs)"
  by (simp add: scenario_rows_def parse_pattern_plain search_Lit)

lemma scenario_rows_member:
  "scenario_rows l rs = Inr df \<Longrightarrow>
   r \<in> set df \<longleftrightarrow> r \<in> set rs \<and> str_contains l (Model r) = Inr True"
  by (auto simp: scenario_rows_def str_contains_def split: option.splits)

lemma scenario_rows_plain_member:
  "plain_label l \<Longrightarrow> scenario_rows l rs = Inr df \<Longrightarrow>
   r \<in> set df \<longleftrightarrow> r \<in> set rs \<and> sublist l (Model r)"
  by (auto simp: scenario_rows_plain)


section \<open>Number formatting\<close>

declare digits.simps [simp del]

text \<open>
  The shape of a formatted number: the sign, at least one digit, the point, and as many
  digits as the precision asks for; and the digits are those of the value rounded to that precision.
\<close>

lemma length_fixed_digits: "length (fixed_digits k q) = k"
  by (induction k arbitrary: q) simp_all

lemma digit_char_decimal: "d < 10 \<Longrightarrow> decimal_digit (digit_char d)"
  unfolding digit_char_def decimal_digit_def by (rule nth_mem) simp

lemma fixed_digits_decimal: "c \<in> set (fixed_digits k q) \<Longrightarrow> decimal_digit c"
proof (induction k arbitrary: q)
  case 0
  then show ?case by simp
next
  case (Suc k)
  have "q mod 10 < 10" by simp
  from digit_char_decimal [OF this] Suc show ?case by auto
qed

lemma digits_not_Nil: "digits n \<noteq> []"
  by (subst digits.simps) simp

lemma digits_decimal: "c \<in> set (digits n) \<Longrightarrow> decimal_digit c"
proof (induction n rule: digits.induct)
  case (1 n)
  show ?case
  proof (cases "n < 10")
    case True
    with "1.prems" have "c = digit_char n" by (subst (asm) digits.simps) simp
    with digit_char_decimal [OF True] show ?thesis by simp
  next
    case False
    with "1.prems" have "c \<in> set (digits (n div 10)) \<or> c = digit_char (n mod 10)"
      by (subst (asm) digits.simps) auto
    moreover have "n mod 10 < 10" by simp
    ultimately show ?thesis
      using "1.IH" [OF False] digit_char_decimal [of "n mod 10"] by blast
  qed
qed

lemma format_f_shape:
  "\<exists>ip fr. format_f always_sign n x
             = (if x < 0 then ''-'' else if always_sign then ''+'' else []) @ ip @ ''.'' @ fr
         \<and> ip \<noteq> [] \<and> length fr = n \<and> (\<forall>c\<in>set (ip @ fr). decimal_digit c)"
proof -
  define q where "q = round_half_even (\<bar>x\<bar> * 10 ^ n)"
  have "format_f always_sign n x
      = (if x < 0 then ''-'' else if always_sign then ''+'' else [])
        @ digits (q div 10 ^ n) @ ''.'' @ fixed_digits n (q mod 10 ^ n)"
    by (simp add: format_f_def q_def Let_def)
  moreover have "\<forall>c\<in>set (digits (q div 10 ^ n) @ fixed_digits n (q mod 10 ^ n)). decimal_digit c"
    using digits_decimal fixed_digits_decimal by auto
  ultimately show ?thesis
    using digits_not_Nil length_fixed_digits by blast
qed

lemma round_half_even_error: "\<bar>real_of_int (round_half_even y) - y\<bar> \<le> 1 / 2"
proof -
  define d where "d = y - real_of_int \<lfloor>y\<rfloor>"
  have d: "0 \<le> d" "d < 1"
    unfolding d_def by linarith+
  have y: "y = real_of_int \<lfloor>y\<rfloor> + d"
    by (simp add: d_def)
  consider "d < 1 / 2" | "1 / 2 < d" | "d = 1 / 2" by linarith
  then show ?thesis
  proof cases
    case 1
    then have "round_half_even y = \<lfloor>y\<rfloor>"
      by (simp add: round_half_even_def Let_def d_def)
    then show ?thesis using 1 d y by simp
  next
    case 2
    then have "round_half_even y = \<lfloor>y\<rfloor> + 1"
      by (simp add: round_half_even_def Let_def d_def)
    then show ?thesis using 2 d y by simp
  next
    case 3
    then have "round_half_even y = \<lfloor>y\<rfloor> \<or> round_half_even y = \<lfloor>y\<rfloor> + 1"
      by (simp add: round_half_even_def Let_def d_def)
    then show ?thesis using 3 y by auto
  qed
qed

lemma round_half_even_nonneg: "0 \<le> y \<Longrightarrow> 0 \<le> round_half_even y"
  by (simp add: round_half_even_def Let_def)

lemma format_f_rounding:
  "\<bar>real_of_int (round_half_even (\<bar>x\<bar> * 10 ^ n)) / 10 ^ n - \<bar>x\<bar>\<bar> \<le> 1 / (2 * 10 ^ n)"
proof -
  define y where "y = \<bar>x\<bar> * 10 ^ n"
  define q where "q = real_of_int (round_half_even y)"
  have e: "\<bar>q - y\<bar> \<le> 1 / 2"
    using round_half_even_error [of y] by (simp add: q_def)
  have "q / 10 ^ n - \<bar>x\<bar> = (q - y) / 10 ^ n"
    by (simp add: y_def diff_divide_distrib)
  then have "\<bar>q / 10 ^ n - \<bar>x\<bar>\<bar> = \<bar>q - y\<bar> / 10 ^ n"
    by simp
  also have "\<dots> \<le> (1 / 2) / 10 ^ n"
    using e by (rule divide_right_mono) simp
  finally show ?thesis
    by (simp add: q_def y_def)
qed

section \<open>The comparison table\<close>

lemma table_names:
  "create_comparison_table rs metric bl xl el = Inr table \<Longrightarrow>
   scenario_rows bl rs = Inr baseline_df \<Longrightarrow>
   map cmp_Model table = unique (map (ModelName bl xl el) baseline_df)"
  by (auto simp: create_comparison_table_def Let_def build_row_def comp_def
      split: sum.splits if_splits)


text \<open>
  Claim C4: a bare model name is the name of a row of the table if and only if some
  record of the baseline partition has that bare model name; the rows come in the order
  in which the names first appear in the baseline partition (row \<open>i\<close> carries the name
  found at some position \<open>k\<close> of the partition, and the names before position \<open>k\<close> are
  exactly those of the rows before \<open>i\<close>), each name once; and a record whose bare name
  is that of no baseline record gives no row.
\<close>

theorem comparison_table_rows:
  assumes "create_comparison_table results_df metric baseline_label exog_label eemd_label = Inr table"
    and "scenario_rows baseline_label results_df = Inr baseline_df"
  shows "(\<forall>name. (\<exists>row\<in>set table. cmp_Model row = name) \<longleftrightarrow>
            (\<exists>r\<in>set baseline_df. ModelName baseline_label exog_label eemd_label r = name))
       \<and> distinct (map cmp_Model table)
       \<and> (\<forall>i<length table. \<exists>k<length baseline_df.
            ModelName baseline_label exog_label eemd_label (baseline_df ! k) = cmp_Model (table ! i)
            \<and> ModelName baseline_label exog_label eemd_label ` set (take k baseline_df)
                = cmp_Model ` set (take i table))
       \<and> (\<forall>r\<in>set results_df.
            ModelName baseline_label exog_label eemd_label r
              \<notin> ModelName baseline_label exog_label eemd_label ` set baseline_df \<longrightarrow>
            (\<forall>row\<in>set table. cmp_Model row \<noteq> ModelName baseline_label exog_label eemd_label r))"
proof -
  let ?name = "ModelName baseline_label exog_label eemd_label"
  let ?names = "map ?name baseline_df"
  have names: "map cmp_Model table = unique ?names"
    using assms by (rule table_names)
  have sets: "cmp_Model ` set table = ?name ` set baseline_df"
    using arg_cong [OF names, of set] by (simp add: set_unique)
  have iff: "\<forall>name. (\<exists>row\<in>set table. cmp_Model row = name) \<longleftrightarrow> (\<exists>r\<in>set baseline_df. ?name r = name)"
  proof
    fix name
    have "(\<exists>row\<in>set table. cmp_Model row = name) \<longleftrightarrow> name \<in> cmp_Model ` set table"
      by auto
    also have "\<dots> \<longleftrightarrow> name \<in> ?name ` set baseline_df"
      by (simp only: sets)
    also have "\<dots> \<longleftrightarrow> (\<exists>r\<in>set baseline_df. ?name r = name)"
      by auto
    finally show "(\<exists>row\<in>set table. cmp_Model row = name) \<longleftrightarrow> (\<exists>r\<in>set baseline_df. ?name r = name)" .
  qed
  have dist: "distinct (map cmp_Model table)"
    by (simp add: names distinct_unique)
  have order: "\<forall>i<length table. \<exists>k<length baseline_df.
      ?name (baseline_df ! k) = cmp_Model (table ! i)
      \<and> ?name ` set (take k baseline_df) = cmp_Model ` set (take i table)"
  proof (intro allI impI)
    fix i assume i: "i < length table"
    then have "i < length (unique ?names)"
      using arg_cong [OF names, of length] by simp
    from unique_first_appearance [OF this] obtain k where k: "k < length ?names"
      "?names ! k = unique ?names ! i" "set (take k ?names) = set (take i (unique ?names))"
      by blast
    have "unique ?names ! i = cmp_Model (table ! i)"
      using i by (simp add: names [symmetric])
    moreover have "set (take i (unique ?names)) = cmp_Model ` set (take i table)"
      by (simp add: names [symmetric] take_map)
    moreover have "set (take k ?names) = ?name ` set (take k baseline_df)"
      by (simp add: take_map)
    ultimately show "\<exists>k<length baseline_df.
      ?name (baseline_df ! k) = cmp_Model (table ! i)
      \<and> ?name ` set (take k baseline_df) = cmp_Model ` set (take i table)"
      using k by (intro exI [of _ k]) simp
  qed
  have dropped: "\<forall>r\<in>set results_df. ?name r \<notin> ?name ` set baseline_df \<longrightarrow>
            (\<forall>row\<in>set table. cmp_Model row \<noteq> ?name r)"
    using sets by (metis imageI)
  show ?thesis
    using iff dist order dropped by blast
qed

theorem comparison_table_rows_witness:
  "create_comparison_table example_records ''RMSE'' ''Base'' ''Exog'' ''EEMD'' = Inr example_table_RMSE
 \<and> scenario_rows ''Base'' example_records = Inr [arima_base, svr_base]
 \<and> (\<forall>name. (\<exists>row\<in>set example_table_RMSE. cmp_Model row = name) \<longleftrightarrow>
        (\<exists>r\<in>set [arima_base, svr_base]. ModelName ''Base'' ''Exog'' ''EEMD'' r = name))
 \<and> distinct (map cmp_Model example_table_RMSE)"
proof -
  have t: "create_comparison_table example_records ''RMSE'' ''Base'' ''Exog'' ''EEMD''
      = Inr example_table_RMSE"
    by code_simp
  have b: "scenario_rows ''Base'' example_records = Inr [arima_base, svr_base]"
    by code_simp
  note c = comparison_table_rows [OF t b]
  show ?thesis
    by (rule conjI [OF t conjI [OF b conjI [OF c [THEN conjunct1]
          c [THEN conjunct2, THEN conjunct1]]]])
qed



text \<open>
  Claim C7: for the records \<open>ARIMA-Base\<close> with \<open>RMSE = 10\<close> and \<open>ARIMA-Exog\<close> with
  \<open>RMSE = 8\<close>, the labels \<open>Base\<close>, \<open>Exog\<close>, \<open>EEMD\<close> and the metric \<open>RMSE\<close>, the table has
  exactly one row, for \<open>ARIMA\<close>, with the displays \<open>10.000\<close>, \<open>8.000 (+20.0%)\<close> and \<open>N/A\<close>.
\<close>

theorem scenario_1_table:
  "create_comparison_table scenario_1_records ''RMSE'' ''Base'' ''Exog'' ''EEMD'' =
     Inr [\<lparr>cmp_Model = ''ARIMA'', Baseline = ''10.000'', Exogenous = ''8.000 (+20.0%)'',
            EEMD = ''N/A'', exog_imp = Some 20, eemd_imp = None\<rparr>]"
  by code_simp

lemma map_err_Inr:
  "map_err f xs = Inr ys \<Longrightarrow> y \<in> set ys \<Longrightarrow> \<exists>x\<in>set xs. f x = Inr y"
  by (induction xs arbitrary: ys) (auto split: sum.splits)

lemma saved_workbook_sheet:
  assumes "create_styled_excel results_df output_path baseline_label exog_label eemd_label files
      = (Inr (), saved)"
    and "saved output_path = Some wb"
    and "sheet \<in> set (metric_sheets wb)"
  obtains metric where "metric \<in> set metrics"
    and "create_metric_sheet results_df baseline_label exog_label eemd_label metric = Inr sheet"
proof -
  from assms(1,2) have "build_workbook results_df baseline_label exog_label eemd_label = Inr wb"
    by (auto simp: create_styled_excel_def split: sum.splits)
  with assms(3) obtain sheets where
    "map_err (create_metric_sheet results_df baseline_label exog_label eemd_label) metrics = Inr sheets"
    and "sheet \<in> set sheets"
    by (auto simp: build_workbook_def split: sum.splits)
  from map_err_Inr [OF this] that show thesis by blast
qed

lemma create_metric_sheet_Inr:
  assumes "create_metric_sheet results_df baseline_label exog_label eemd_label metric = Inr sheet"
  obtains comparison_df where
    "create_comparison_table results_df metric baseline_label exog_label eemd_label = Inr comparison_df"
    and "comparison_df \<noteq> []"
    and "sheet_title sheet = metric"
    and "data_rows sheet = map write_data_row (enumerate 4 comparison_df)"
    and "summary_row sheet = length comparison_df + 5"
    and "summary_cells sheet = [''Average Improvement:'', ''Baseline'',
           format_avg (mean_skipna (map exog_imp comparison_df)) @ ''%'',
           format_avg (mean_skipna (map eemd_imp comparison_df)) @ ''%'']"
  using assms
  by (auto simp: create_metric_sheet_def frame_column_def split: sum.splits if_splits)





lemma improvement_style_cases:
  "(improvement_style imp = ImprovementGood \<longleftrightarrow> (\<exists>p. imp = Some p \<and> 0 < p))
 \<and> (improvement_style imp = ImprovementBad \<longleftrightarrow> (\<exists>p. imp = Some p \<and> p < 0))
 \<and> (improvement_style imp = NoFill \<longleftrightarrow> imp = None \<or> imp = Some 0)"
  by (cases imp) (auto simp: improvement_style_def)

text \<open>
  Claim C8: in every data row of a metric sheet of the saved workbook the exogenous and
  the decomposition cell are given the good fill and font exactly when their
  improvement is strictly positive, the bad fill and font exactly when it is strictly
  negative, and no such style exactly when it is undefined or zero.
\<close>

theorem improvement_cell_styles:
  assumes "create_styled_excel results_df output_path baseline_label exog_label eemd_label files
      = (Inr (), saved)"
    and "saved output_path = Some wb"
    and "sheet \<in> set (metric_sheets wb)"
  shows "\<exists>table.
      create_comparison_table results_df (sheet_title sheet) baseline_label exog_label eemd_label
        = Inr table
    \<and> length (data_rows sheet) = length table
    \<and> (\<forall>i<length table.
         row_idx (data_rows sheet ! i) = 4 + i
       \<and> exog_cell (data_rows sheet ! i) = Exogenous (table ! i)
       \<and> eemd_cell (data_rows sheet ! i) = EEMD (table ! i)
       \<and> (exog_cell_style (data_rows sheet ! i) = ImprovementGood
            \<longleftrightarrow> (\<exists>p. exog_imp (table ! i) = Some p \<and> 0 < p))
       \<and> (exog_cell_style (data_rows sheet ! i) = ImprovementBad
            \<longleftrightarrow> (\<exists>p. exog_imp (table ! i) = Some p \<and> p < 0))
       \<and> (exog_cell_style (data_rows sheet ! i) = NoFill
            \<longleftrightarrow> exog_imp (table ! i) = None \<or> exog_imp (table ! i) = Some 0)
       \<and> (eemd_cell_style (data_rows sheet ! i) = ImprovementGood
            \<longleftrightarrow> (\<exists>p. eemd_imp (table ! i) = Some p \<and> 0 < p))
       \<and> (eemd_cell_style (data_rows sheet ! i) = ImprovementBad
            \<longleftrightarrow> (\<exists>p. eemd_imp (table ! i) = Some p \<and> p < 0))
       \<and> (eemd_cell_style (data_rows sheet ! i) = NoFill
            \<longleftrightarrow> eemd_imp (table ! i) = None \<or> eemd_imp (table ! i) = Some 0))"
proof -
  from assms obtain metric where
    sh: "create_metric_sheet results_df baseline_label exog_label eemd_label metric = Inr sheet"
    by (rule saved_workbook_sheet)
  from sh obtain table where
    t: "create_comparison_table results_df metric baseline_label exog_label eemd_label = Inr table"
    and title: "sheet_title sheet = metric"
    and rows: "data_rows sheet = map write_data_row (enumerate 4 table)"
    by (rule create_metric_sheet_Inr)
  have nth: "data_rows sheet ! i = write_data_row (4 + i, table ! i)" if "i < length table" for i
    using that by (simp add: rows nth_enumerate_eq)
  show ?thesis
  proof (intro exI [of _ table] conjI allI impI)
    show "create_comparison_table results_df (sheet_title sheet) baseline_label exog_label eemd_label
        = Inr table" by (simp add: title t)
    show "length (data_rows sheet) = length table" by (simp add: rows)
  qed (simp_all add: nth write_data_row_def improvement_style_cases)
qed

theorem improvement_cell_styles_witness:
  "create_styled_excel example_records ''comparison.xlsx'' ''Base'' ''Exog'' ''EEMD'' Map.empty
      = (Inr (), [''comparison.xlsx'' \<mapsto> example_workbook])
 \<and> [''comparison.xlsx'' \<mapsto> example_workbook] ''comparison.xlsx'' = Some example_workbook
 \<and> example_sheet_RMSE \<in> set (metric_sheets example_workbook)
 \<and> (\<exists>table.
      create_comparison_table example_records (sheet_title example_sheet_RMSE) ''Base'' ''Exog'' ''EEMD''
        = Inr table
    \<and> length (data_rows example_sheet_RMSE) = length table
    \<and> (\<forall>i<length table.
         row_idx (data_rows example_sheet_RMSE ! i) = 4 + i
       \<and> exog_cell (data_rows example_sheet_RMSE ! i) = Exogenous (table ! i)
       \<and> eemd_cell (data_rows example_sheet_RMSE ! i) = EEMD (table ! i)
       \<and> (exog_cell_style (data_rows example_sheet_RMSE ! i) = ImprovementGood
            \<longleftrightarrow> (\<exists>p. exog_imp (table ! i) = Some p \<and> 0 < p))
       \<and> (exog_cell_style (data_rows example_sheet_RMSE ! i) = ImprovementBad
            \<longleftrightarrow> (\<exists>p. exog_imp (table ! i) = Some p \<and> p < 0))
       \<and> (exog_cell_style (data_rows example_sheet_RMSE ! i) = NoFill
            \<longleftrightarrow> exog_imp (table ! i) = None \<or> exog_imp (table ! i) = Some 0)
       \<and> (eemd_cell_style (data_rows example_sheet_RMSE ! i) = ImprovementGood
            \<longleftrightarrow> (\<exists>p. eemd_imp (table ! i) = Some p \<and> 0 < p))
       \<and> (eemd_cell_style (data_rows example_sheet_RMSE ! i) = ImprovementBad
            \<longleftrightarrow> (\<exists>p. eemd_imp (table ! i) = Some p \<and> p < 0))
       \<and> (eemd_cell_style (data_rows example_sheet_RMSE ! i) = NoFill
            \<longleftrightarrow> eemd_imp (table ! i) = None \<or> eemd_imp (table ! i) = Some 0)))"
proof -
  have w: "build_workbook example_records ''Base'' ''Exog'' ''EEMD'' = Inr example_workbook"
    by code_simp
  have c: "create_styled_excel example_records ''comparison.xlsx'' ''Base'' ''Exog'' ''EEMD'' Map.empty
      = (Inr (), [''comparison.xlsx'' \<mapsto> example_workbook])"
    by (simp add: create_styled_excel_def w)
  have f: "[''comparison.xlsx'' \<mapsto> example_workbook] ''comparison.xlsx'' = Some example_workbook"
    by simp
  have s: "example_sheet_RMSE \<in> set (metric_sheets example_workbook)"
    by code_simp
  show ?thesis
    by (rule conjI [OF c conjI [OF f conjI [OF s improvement_cell_styles [OF c f s]]]])
qed

lemma map_err_all:
  "(\<And>x. x \<in> set xs \<Longrightarrow> \<exists>y. f x = Inr y) \<Longrightarrow> \<exists>ys. map_err f xs = Inr ys"
proof (induction xs)
  case Nil
  then show ?case by simp
next
  case (Cons x xs)
  from Cons.prems [of x] obtain y where y: "f x = Inr y" by auto
  from Cons.IH Cons.prems obtain ys where "map_err f xs = Inr ys" by auto
  with y show ?case by simp
qed

lemma column_metrics: "metric \<in> set metrics \<Longrightarrow> \<exists>col. column metric = Inr col"
  by (auto simp: metrics_def column_def)

text \<open>
  With a baseline partition that is not empty and three labels that can be searched for,
  the workbook is built and saved.
\<close>

lemma create_styled_excel_saves:
  assumes b: "scenario_rows baseline_label results_df = Inr baseline_df"
    and ne: "baseline_df \<noteq> []"
    and x: "scenario_rows exog_label results_df = Inr exog_df"
    and e: "scenario_rows eemd_label results_df = Inr eemd_df"
  shows "\<exists>wb. create_styled_excel results_df output_path baseline_label exog_label eemd_label files
           = (Inr (), files(output_path \<mapsto> wb))"
proof -
  let ?names = "unique (map (ModelName baseline_label exog_label eemd_label) baseline_df)"
  have names: "?names \<noteq> []"
    using ne by (simp add: unique_eq_Nil)
  have table: "\<exists>t. create_comparison_table results_df metric baseline_label exog_label eemd_label
      = Inr t \<and> t \<noteq> []" if "metric \<in> set metrics" for metric
  proof -
    from column_metrics [OF that] obtain col where "column metric = Inr col" ..
    then show ?thesis
      using names by (simp add: create_comparison_table_def b x e Let_def)
  qed
  have sheet: "\<exists>y. create_metric_sheet results_df baseline_label exog_label eemd_label metric = Inr y"
    if "metric \<in> set metrics" for metric
    using table [OF that] by (auto simp: create_metric_sheet_def frame_column_def)
  have entry: "\<exists>y. summary_entry results_df baseline_label exog_label eemd_label metric = Inr y"
    if "metric \<in> set metrics" for metric
    using table [OF that] by (auto simp: summary_entry_def frame_column_def)
  have "\<exists>ys. map_err (create_metric_sheet results_df baseline_label exog_label eemd_label) metrics
      = Inr ys"
    by (rule map_err_all) (rule sheet)
  moreover have "\<exists>ys. map_err (summary_entry results_df baseline_label exog_label eemd_label) metrics
      = Inr ys"
    by (rule map_err_all) (rule entry)
  ultimately show ?thesis
    by (auto simp: create_styled_excel_def build_workbook_def)
qed



section \<open>The partitions\<close>

text \<open>
  For a label without metacharacters the partition holds the records whose \<open>Model\<close>
  contains the label as literal text (\<open>scenario_rows_plain\<close>).

  Claim C9: a record is placed in a scenario's partition if and only if its \<open>Model\<close>
  contains the label as a literal substring. The code searches for the label as a
  regular expression: with the baseline label \<open>Base.v1\<close> the record \<open>ARIMA-Base-v1\<close>,
  which does not contain that text, is placed in the baseline partition and gets a row.
\<close>

theorem dotted_label_matches_other_text:
  "scenario_rows ''Base.v1'' [arima_base_v1] = Inr [arima_base_v1]
 \<and> \<not> sublist ''Base.v1'' (Model arima_base_v1)
 \<and> create_comparison_table [arima_base_v1] ''RMSE'' ''Base.v1'' ''Exog.v1'' ''EEMD.v1'' =
     Inr [\<lparr>cmp_Model = ''ARIMA-Base-v1'', Baseline = ''10.000'', Exogenous = ''N/A'',
            EEMD = ''N/A'', exog_imp = None, eemd_imp = None\<rparr>]"
  by code_simp

end
